theory Spec2Isabelle
  imports Complex_Main
begin

section \<open>Invoice actions of \<open>my_app/app/lib/actions.ts\<close>\<close>

text \<open>
  The file holds two modules, both exporting \<open>createInvoice\<close>, \<open>updateInvoice\<close> and
  \<open>deleteInvoice\<close>: the first (lines 1 to 113) validates with custom messages and returns a
  form state from \<open>createInvoice\<close>; the second (lines 114 to 202) validates with the bare
  schema and raises. The definitions of the first module keep the source's names; those of
  the second carry the suffix \<open>_basic\<close>.

  Strings are \<^typ>\<open>string\<close>: a character stands for the code unit of the same value, so
  the model covers the JavaScript strings whose code units are below 256.
\<close>

subsection \<open>JavaScript numbers\<close>

text \<open>
  A Number is an IEEE 754 binary64 value: not-a-number, an infinity, or a finite value with
  a sign. \<open>Finite neg r\<close> has magnitude \<open>r \<ge> 0\<close>; \<open>Finite True 0\<close> is the negative zero.
\<close>

datatype jsnum = NaN | PosInf | NegInf | Finite bool rat

definition js_zero :: jsnum where
  "js_zero = Finite False 0"

definition js_inf :: "bool \<Rightarrow> jsnum" where
  "js_inf neg = (if neg then NegInf else PosInf)"

text \<open>The number of binary digits of a positive integer.\<close>

function bitlen :: "int \<Rightarrow> int" where
  "bitlen n = (if n \<le> 0 then 0 else 1 + bitlen (n div 2))"
  by pat_completeness auto
termination
  by (relation "measure nat") auto

declare bitlen.simps [simp del]

definition pow2 :: "int \<Rightarrow> rat" where
  "pow2 k = (if 0 \<le> k then 2 ^ nat k else 1 / 2 ^ nat (- k))"

text \<open>\<open>ilog2 a\<close> is the exponent \<open>e\<close> with \<open>2 ^ e \<le> a < 2 ^ (e + 1)\<close>, for \<open>a > 0\<close>.\<close>

definition ilog2 :: "rat \<Rightarrow> int" where
  "ilog2 a = (if 1 \<le> a then bitlen \<lfloor>a\<rfloor> - 1 else - bitlen (\<lceil>1 / a\<rceil> - 1))"

definition round_half_even :: "rat \<Rightarrow> int" where
  "round_half_even x =
     (let f = \<lfloor>x\<rfloor>; d = x - of_int f
      in if d < 1 / 2 then f else if 1 / 2 < d then f + 1
         else if even f then f else f + 1)"

text \<open>
  Rounding of an exact magnitude to the nearest binary64 value, ties to even: 53 bits of
  significand, the least exponent \<open>-1022\<close> (below it the spacing stays \<open>2 ^ -1074\<close>), and
  overflow to an infinity from \<open>2 ^ 1024\<close> on.
\<close>

definition round_double :: "bool \<Rightarrow> rat \<Rightarrow> jsnum" where
  "round_double neg a =
     (if a = 0 then Finite neg 0
      else let e = max (ilog2 a) (- 1022);
               q = pow2 (e - 52);
               m = round_half_even (a / q)
           in if 1023 < e \<or> (e = 1023 \<and> m = 2 ^ 53) then js_inf neg
              else Finite neg (of_int m * q))"

text \<open>The operator \<open>*\<close> on Numbers.\<close>

fun js_mul :: "jsnum \<Rightarrow> jsnum \<Rightarrow> jsnum" where
  "js_mul NaN _ = NaN"
| "js_mul _ NaN = NaN"
| "js_mul (Finite s a) (Finite t b) = round_double (s \<noteq> t) (a * b)"
| "js_mul (Finite s a) PosInf = (if a = 0 then NaN else js_inf s)"
| "js_mul (Finite s a) NegInf = (if a = 0 then NaN else js_inf (\<not> s))"
| "js_mul PosInf (Finite t b) = (if b = 0 then NaN else js_inf t)"
| "js_mul NegInf (Finite t b) = (if b = 0 then NaN else js_inf (\<not> t))"
| "js_mul PosInf PosInf = PosInf"
| "js_mul PosInf NegInf = NegInf"
| "js_mul NegInf PosInf = NegInf"
| "js_mul NegInf NegInf = PosInf"

text \<open>The signed value of a finite Number; both zeros have the value 0.\<close>

definition signed :: "bool \<Rightarrow> rat \<Rightarrow> rat" where
  "signed neg r = (if neg then - r else r)"

text \<open>The operators \<open><=\<close> and \<open>>\<close> on Numbers: false whenever an operand is NaN.\<close>

fun js_le :: "jsnum \<Rightarrow> jsnum \<Rightarrow> bool" where
  "js_le NaN _ = False"
| "js_le _ NaN = False"
| "js_le NegInf _ = True"
| "js_le _ PosInf = True"
| "js_le PosInf _ = False"
| "js_le _ NegInf = False"
| "js_le (Finite s a) (Finite t b) = (signed s a \<le> signed t b)"

fun js_gt :: "jsnum \<Rightarrow> jsnum \<Rightarrow> bool" where
  "js_gt NaN _ = False"
| "js_gt _ NaN = False"
| "js_gt NegInf _ = False"
| "js_gt _ PosInf = False"
| "js_gt PosInf _ = True"
| "js_gt _ NegInf = True"
| "js_gt (Finite s a) (Finite t b) = (signed t b < signed s a)"

subsection \<open>Form data and the conversion \<open>Number(value)\<close>\<close>

text \<open>
  \<open>FormData.get(name)\<close> returns the first entry of that name, a string or a \<open>File\<close>, or
  \<open>null\<close> when there is none: \<open>None\<close> is \<open>null\<close>.
\<close>

datatype entryValue = EString string | EFile

type_synonym formData = "(string \<times> entryValue) list"

type_synonym raw = "entryValue option"

definition get :: "formData \<Rightarrow> string \<Rightarrow> raw" where
  "get formData name = map_of formData name"

text \<open>
  White space and line terminators among the code units below 256: TAB, LF, VT, FF, CR,
  SP and NBSP.
\<close>

definition isStrWhiteSpaceChar :: "char \<Rightarrow> bool" where
  "isStrWhiteSpaceChar c = ((of_char c :: nat) \<in> {9, 10, 11, 12, 13, 32, 160})"

definition trimString :: "string \<Rightarrow> string" where
  "trimString s = rev (dropWhile isStrWhiteSpaceChar (rev (dropWhile isStrWhiteSpaceChar s)))"

definition isDigit :: "char \<Rightarrow> bool" where
  "isDigit c = (c \<in> set ''0123456789'')"

definition digitValue :: "char \<Rightarrow> int" where
  "digitValue c =
     (if isDigit c then of_char c - 48
      else if c \<in> set ''abcdef'' then of_char c - 87
      else if c \<in> set ''ABCDEF'' then of_char c - 55
      else 0)"

definition isDigitOf :: "int \<Rightarrow> char \<Rightarrow> bool" where
  "isDigitOf base c = ((isDigit c \<or> c \<in> set ''abcdefABCDEF'') \<and> digitValue c < base)"

definition digitsValue :: "int \<Rightarrow> string \<Rightarrow> int" where
  "digitsValue base ds = foldl (\<lambda>a c. a * base + digitValue c) 0 ds"

definition pow10 :: "int \<Rightarrow> rat" where
  "pow10 k = (if 0 \<le> k then 10 ^ nat k else 1 / 10 ^ nat (- k))"

text \<open>\<open>SignedInteger\<close> of an exponent part: digits with an optional sign.\<close>

definition signedInteger :: "string \<Rightarrow> int option" where
  "signedInteger s =
     (let neg = (s \<noteq> [] \<and> hd s = CHR ''-'');
          ds = (if s \<noteq> [] \<and> (hd s = CHR ''+'' \<or> hd s = CHR ''-'') then tl s else s)
      in if ds \<noteq> [] \<and> list_all isDigit ds
         then Some (if neg then - digitsValue 10 ds else digitsValue 10 ds)
         else None)"

text \<open>What follows the significand: nothing, or \<open>e\<close> or \<open>E\<close> and a signed integer.\<close>

definition exponentPart :: "string \<Rightarrow> int option" where
  "exponentPart s =
     (case s of [] \<Rightarrow> Some 0
      | c # cs \<Rightarrow> if c = CHR ''e'' \<or> c = CHR ''E'' then signedInteger cs else None)"

text \<open>
  \<open>StrUnsignedDecimalLiteral\<close>: \<open>Infinity\<close>, or digits with an optional fraction and an
  optional exponent, at least one digit before or after the point. The mathematical value
  is rounded to the nearest Number, whatever the number of digits. Anything else is
  \<open>NaN\<close>.
\<close>

definition strUnsignedDecimalLiteral :: "bool \<Rightarrow> string \<Rightarrow> jsnum" where
  "strUnsignedDecimalLiteral neg s =
     (if s = ''Infinity'' then js_inf neg
      else let ip = takeWhile isDigit s;
               r1 = dropWhile isDigit s;
               hasDot = (r1 \<noteq> [] \<and> hd r1 = CHR ''.'');
               fp = (if hasDot then takeWhile isDigit (tl r1) else []);
               r2 = (if hasDot then dropWhile isDigit (tl r1) else r1)
           in if ip = [] \<and> fp = [] then NaN
              else case exponentPart r2 of
                     None \<Rightarrow> NaN
                   | Some e \<Rightarrow>
                       round_double neg
                         (of_int (digitsValue 10 (ip @ fp)) * pow10 (e - int (length fp))))"

definition strDecimalLiteral :: "string \<Rightarrow> jsnum" where
  "strDecimalLiteral s =
     (case s of
        [] \<Rightarrow> NaN
      | c # cs \<Rightarrow>
          if c = CHR ''+'' then strUnsignedDecimalLiteral False cs
          else if c = CHR ''-'' then strUnsignedDecimalLiteral True cs
          else strUnsignedDecimalLiteral False s)"

text \<open>\<open>NonDecimalIntegerLiteral\<close>: the digits after \<open>0x\<close>, \<open>0o\<close> or \<open>0b\<close>; no sign.\<close>

definition nonDecimalIntegerLiteral :: "int \<Rightarrow> string \<Rightarrow> jsnum" where
  "nonDecimalIntegerLiteral base ds =
     (if ds \<noteq> [] \<and> list_all (isDigitOf base) ds
      then round_double False (of_int (digitsValue base ds))
      else NaN)"

definition strNumericLiteral :: "string \<Rightarrow> jsnum" where
  "strNumericLiteral s =
     (case s of
        c # x # ds \<Rightarrow>
          if c = CHR ''0'' \<and> (x = CHR ''x'' \<or> x = CHR ''X'') then nonDecimalIntegerLiteral 16 ds
          else if c = CHR ''0'' \<and> (x = CHR ''o'' \<or> x = CHR ''O'') then nonDecimalIntegerLiteral 8 ds
          else if c = CHR ''0'' \<and> (x = CHR ''b'' \<or> x = CHR ''B'') then nonDecimalIntegerLiteral 2 ds
          else strDecimalLiteral s
      | _ \<Rightarrow> strDecimalLiteral s)"

text \<open>\<open>StringToNumber\<close>: the empty string and white space alone give \<open>+0\<close>.\<close>

definition stringToNumber :: "string \<Rightarrow> jsnum" where
  "stringToNumber s = (let t = trimString s in if t = [] then js_zero else strNumericLiteral t)"

text \<open>
  \<open>Number(value)\<close>: \<open>null\<close> is \<open>+0\<close>; a string is read by \<open>StringToNumber\<close>; a \<open>File\<close> is an
  object, converted through its string \<open>[object File]\<close>.
\<close>

definition Number :: "raw \<Rightarrow> jsnum" where
  "Number v =
     (case v of
        None \<Rightarrow> js_zero
      | Some (EString s) \<Rightarrow> stringToNumber s
      | Some EFile \<Rightarrow> stringToNumber ''[object File]'')"

subsection \<open>The clock and \<open>toISOString\<close>\<close>

text \<open>
  \<open>new Date()\<close> reads the clock; the reading is given by its UTC calendar fields, the month
  counted from 1.
\<close>

record utcDate =
  year :: int
  month :: nat
  day :: nat
  hours :: nat
  minutes :: nat
  seconds :: nat
  milliseconds :: nat

definition digitChar :: "nat \<Rightarrow> char" where
  "digitChar d = ''0123456789'' ! d"

text \<open>The last \<open>k\<close> decimal digits of \<open>n\<close>, padded with zeros on the left.\<close>

primrec padDigits :: "nat \<Rightarrow> nat \<Rightarrow> string" where
  "padDigits 0 n = []"
| "padDigits (Suc k) n = padDigits k (n div 10) @ [digitChar (n mod 10)]"

text \<open>
  \<open>Date.prototype.toISOString\<close>: \<open>YYYY-MM-DDTHH:mm:ss.sssZ\<close>; a year outside 0 to 9999 is
  written with a sign and six digits.
\<close>

definition toISOString :: "utcDate \<Rightarrow> string" where
  "toISOString t =
     (if 0 \<le> year t \<and> year t \<le> 9999 then padDigits 4 (nat (year t))
      else (if year t < 0 then ''-'' else ''+'') @ padDigits 6 (nat \<bar>year t\<bar>))
     @ ''-'' @ padDigits 2 (month t) @ ''-'' @ padDigits 2 (day t)
     @ ''T'' @ padDigits 2 (hours t) @ '':'' @ padDigits 2 (minutes t)
     @ '':'' @ padDigits 2 (seconds t) @ ''.'' @ padDigits 3 (milliseconds t) @ ''Z''"

text \<open>\<open>s.split('T')[0]\<close>: the part of \<open>s\<close> before its first \<open>T\<close>, all of \<open>s\<close> if it has none.\<close>

definition split_T_0 :: "string \<Rightarrow> string" where
  "split_T_0 s = takeWhile (\<lambda>c. c \<noteq> CHR ''T'') s"

subsection \<open>The validation library (zod 3)\<close>

text \<open>
  The schemas are built with zod 3 (the option \<open>invalid_type_error\<close> belongs to that
  version). A schema parses a raw value into a value or a list of issues; an issue has a
  code, the path of the field it is about and a message. What the three field schemas use:
  \<^item> \<open>z.string(params)\<close> accepts every value whose type is string as it is, the empty
    string too; any other value is an \<open>invalid_type\<close> issue.
  \<^item> \<open>z.coerce.number()\<close> applies \<open>Number\<close> to the input first; \<open>NaN\<close> is an
    \<open>invalid_type\<close> issue (expected \<open>number\<close>, received \<open>nan\<close>), every other Number
    is accepted, the infinities too.
  \<^item> \<open>.gt(value, { message })\<close> adds a \<open>too_small\<close> issue with that message when
    \<open>data <= value\<close>.
  \<^item> \<open>z.enum(values, params)\<close> gives an \<open>invalid_type\<close> issue on a value that is not
    a string and an \<open>invalid_enum_value\<close> issue on a string that is not among the values.
  \<^item> The message of an \<open>invalid_type\<close> issue is the schema's \<open>invalid_type_error\<close>
    when it has one and the data is not \<open>undefined\<close> (no value read from a form is: an
    absent field is \<open>null\<close>), else \<open>Expected ..., received ...\<close>. The option has no
    effect on issues of another code: an \<open>invalid_enum_value\<close> issue of a schema built
    without \<open>message\<close> has the library's default message.
\<close>

datatype issueCode = invalid_type | too_small | invalid_enum_value

datatype zodIssue = ZodIssue (issue_code: issueCode) (issue_path: "string list") (issue_message: string)

type_synonym 'a parsed = "(issueCode \<times> string) list + 'a"

definition getParsedType :: "raw \<Rightarrow> string" where
  "getParsedType v =
     (case v of None \<Rightarrow> ''null'' | Some (EString s) \<Rightarrow> ''string'' | Some EFile \<Rightarrow> ''object'')"

definition invalid_type_message :: "string option \<Rightarrow> string \<Rightarrow> string \<Rightarrow> string" where
  "invalid_type_message invalid_type_error expected received =
     (case invalid_type_error of
        Some m \<Rightarrow> m
      | None \<Rightarrow> ''Expected '' @ expected @ '', received '' @ received)"

definition z_string :: "string option \<Rightarrow> raw \<Rightarrow> string parsed" where
  "z_string invalid_type_error v =
     (case v of
        Some (EString s) \<Rightarrow> Inr s
      | _ \<Rightarrow> Inl [(invalid_type,
                   invalid_type_message invalid_type_error ''string'' (getParsedType v))])"

text \<open>
  \<open>z.coerce.number()\<close> applies \<open>Number\<close> to the input and rejects \<open>NaN\<close> as of the wrong
  type; the infinities are numbers.
\<close>

definition z_coerce_number :: "raw \<Rightarrow> jsnum parsed" where
  "z_coerce_number v =
     (let n = Number v
      in if n = NaN then Inl [(invalid_type, invalid_type_message None ''number'' ''nan'')]
         else Inr n)"

text \<open>The check \<open>.gt(value, { message })\<close>: too small when \<open>data <= value\<close>.\<close>

definition gt :: "jsnum \<Rightarrow> string \<Rightarrow> jsnum parsed \<Rightarrow> jsnum parsed" where
  "gt value msg r =
     (case r of
        Inl issues \<Rightarrow> Inl issues
      | Inr n \<Rightarrow> if js_le n value then Inl [(too_small, msg)] else Inr n)"

definition quoted :: "string \<Rightarrow> string" where
  "quoted s = CHR 0x27 # s @ [CHR 0x27]"

fun joinValues :: "string list \<Rightarrow> string" where
  "joinValues [] = []"
| "joinValues [v] = quoted v"
| "joinValues (v # vs) = quoted v @ '' | '' @ joinValues vs"

definition z_enum :: "string list \<Rightarrow> string option \<Rightarrow> raw \<Rightarrow> string parsed" where
  "z_enum values invalid_type_error v =
     (case v of
        Some (EString s) \<Rightarrow>
          if s \<in> set values then Inr s
          else Inl [(invalid_enum_value,
                     ''Invalid enum value. Expected '' @ joinValues values
                       @ '', received '' @ quoted s)]
      | _ \<Rightarrow> Inl [(invalid_type,
                   invalid_type_message invalid_type_error (joinValues values)
                     (getParsedType v))])"

text \<open>
  The object handed to the schema, and the data of a successful parse: the three fields
  left by \<open>FormSchema.omit({ id: true, date: true })\<close>.
\<close>

record rawFormData =
  raw_customerId :: raw
  raw_amount :: raw
  raw_status :: raw

record invoiceFields =
  customerId :: string
  amount :: jsnum
  status :: string

record formSchema =
  schema_customerId :: "raw \<Rightarrow> string parsed"
  schema_amount :: "raw \<Rightarrow> jsnum parsed"
  schema_status :: "raw \<Rightarrow> string parsed"

definition issuesAt :: "string \<Rightarrow> 'a parsed \<Rightarrow> zodIssue list" where
  "issuesAt key r =
     (case r of
        Inl issues \<Rightarrow> map (\<lambda>(c, m). ZodIssue c [key] m) issues
      | Inr _ \<Rightarrow> [])"

text \<open>
  \<open>schema.safeParse(object)\<close>: every field is parsed, in the order of the shape; the data
  when all succeed, else the issues of all fields in that order.
\<close>

definition safeParse :: "formSchema \<Rightarrow> rawFormData \<Rightarrow> zodIssue list + invoiceFields" where
  "safeParse schema obj =
     (let c = schema_customerId schema (raw_customerId obj);
          a = schema_amount schema (raw_amount obj);
          s = schema_status schema (raw_status obj)
      in case (c, a, s) of
           (Inr c', Inr a', Inr s') \<Rightarrow> Inr \<lparr>customerId = c', amount = a', status = s'\<rparr>
         | _ \<Rightarrow> Inl (issuesAt ''customerId'' c @ issuesAt ''amount'' a @ issuesAt ''status'' s))"

text \<open>\<open>schema.parse(object)\<close>: the data of \<open>safeParse\<close>, or a thrown \<open>ZodError\<close>.\<close>

datatype exn =
    ZodError "zodIssue list"
  | Error string
  | StoreError string
  | NEXT_REDIRECT string

datatype 'a outcome = Returned 'a | Raised exn

definition parse :: "formSchema \<Rightarrow> rawFormData \<Rightarrow> invoiceFields outcome" where
  "parse schema obj =
     (case safeParse schema obj of
        Inl issues \<Rightarrow> Raised (ZodError issues)
      | Inr d \<Rightarrow> Returned d)"

text \<open>\<open>error.flatten().fieldErrors\<close>: the messages of the issues, by first path element.\<close>

definition fieldErrors :: "zodIssue list \<Rightarrow> (string \<rightharpoonup> string list)" where
  "fieldErrors issues =
     foldl (\<lambda>m i. case issue_path i of
                     [] \<Rightarrow> m
                   | k # _ \<Rightarrow> m(k \<mapsto> (case m k of None \<Rightarrow> [] | Some ms \<Rightarrow> ms) @ [issue_message i]))
           Map.empty issues"

subsection \<open>The store, the cache and the console\<close>

text \<open>
  A statement sent through the \<open>sql\<close> tag, with its bound parameters in the order of the
  template. Besides a \<open>ZodError\<close> and an \<open>Error\<close> made by an action, an action can throw
  an error of the store, and \<open>redirect\<close> leaves an action by throwing a control-flow error
  that carries the path.
\<close>

datatype statement =
    INSERT_INTO_invoices string jsnum string string
  | UPDATE_invoices string jsnum string string
  | DELETE_FROM_invoices string

text \<open>
  The surroundings of a call: the clock, and the store's answer to a statement (\<open>None\<close>
  when it succeeds, else the message of the error it throws).
\<close>

record env =
  now :: utcDate
  store :: "statement \<Rightarrow> string option"

text \<open>
  What a call leaves behind: the statements sent to the store, the paths revalidated and
  the calls of \<open>console.error\<close>, each in order.
\<close>

record world =
  issued :: "statement list"
  revalidated :: "string list"
  console :: "(string \<times> exn) list"

definition sql :: "env \<Rightarrow> statement \<Rightarrow> world \<Rightarrow> exn option \<times> world" where
  "sql e q w = (map_option StoreError (store e q), w\<lparr>issued := issued w @ [q]\<rparr>)"

definition revalidatePath :: "string \<Rightarrow> world \<Rightarrow> world" where
  "revalidatePath p w = w\<lparr>revalidated := revalidated w @ [p]\<rparr>"

definition redirect :: "string \<Rightarrow> 'a outcome" where
  "redirect p = Raised (NEXT_REDIRECT p)"

definition console_error :: "string \<Rightarrow> exn \<Rightarrow> world \<Rightarrow> world" where
  "console_error label err w = w\<lparr>console := console w @ [(label, err)]\<rparr>"

text \<open>The object literal that every action builds from the form.\<close>

definition rawFormData :: "formData \<Rightarrow> rawFormData" where
  "rawFormData formData =
     \<lparr>raw_customerId = get formData ''customerId'',
      raw_amount = get formData ''amount'',
      raw_status = get formData ''status''\<rparr>"

subsection \<open>First module: actions with a form state\<close>

definition FormSchema :: formSchema where
  "FormSchema =
     \<lparr>schema_customerId = z_string (Some ''Please select a customer.''),
      schema_amount =
        (\<lambda>v. gt js_zero ''Please enter an amount greater than $0.'' (z_coerce_number v)),
      schema_status = z_enum [''pending'', ''paid''] (Some ''Please select an invoice status.'')\<rparr>"

record State =
  errors :: "(string \<rightharpoonup> string list) option"
  message :: "string option"

definition CreateInvoice :: formSchema where
  "CreateInvoice = FormSchema"

definition createInvoice :: "env \<Rightarrow> State \<Rightarrow> formData \<Rightarrow> world \<Rightarrow> State outcome \<times> world" where
  "createInvoice e prevState formData w =
     (case safeParse CreateInvoice (rawFormData formData) of
        Inl issues \<Rightarrow>
          (Returned \<lparr>errors = Some (fieldErrors issues),
                     message = Some ''Missing Fields. Failed to Create Invoice.''\<rparr>, w)
      | Inr d \<Rightarrow>
          (let amountInCents = js_mul (amount d) (Finite False 100);
               date = split_T_0 (toISOString (now e))
           in (case sql e (INSERT_INTO_invoices (customerId d) amountInCents (status d) date) w of
                 (Some error, w1) \<Rightarrow>
                   (Returned \<lparr>errors = None,
                              message = Some ''Database Error: Failed to Create Invoice.''\<rparr>, w1)
               | (None, w1) \<Rightarrow>
                   (redirect ''/dashboard/invoices'', revalidatePath ''/dashboard/invoices'' w1))))"

definition UpdateInvoice :: formSchema where
  "UpdateInvoice = FormSchema"

definition updateInvoice :: "env \<Rightarrow> string \<Rightarrow> formData \<Rightarrow> world \<Rightarrow> unit outcome \<times> world" where
  "updateInvoice e id' formData w =
     (case parse UpdateInvoice (rawFormData formData) of
        Raised x \<Rightarrow> (Raised x, w)
      | Returned d \<Rightarrow>
          (let amountInCents = js_mul (amount d) (Finite False 100)
           in (case sql e (UPDATE_invoices (customerId d) amountInCents (status d) id') w of
                 (Some error, w1) \<Rightarrow>
                   (Raised (Error ''Failed to update invoice''),
                    console_error ''Error updating invoice:'' error w1)
               | (None, w1) \<Rightarrow>
                   (redirect ''/dashboard/invoices'', revalidatePath ''/dashboard/invoices'' w1))))"

definition deleteInvoice :: "env \<Rightarrow> string \<Rightarrow> world \<Rightarrow> unit outcome \<times> world" where
  "deleteInvoice e id' w =
     (case sql e (DELETE_FROM_invoices id') w of
        (Some error, w1) \<Rightarrow> (Raised error, w1)
      | (None, w1) \<Rightarrow> (Returned (), revalidatePath ''/dashboard/invoices'' w1))"

subsection \<open>Second module: actions that raise\<close>

definition FormSchema_basic :: formSchema where
  "FormSchema_basic =
     \<lparr>schema_customerId = z_string None,
      schema_amount = z_coerce_number,
      schema_status = z_enum [''pending'', ''paid''] None\<rparr>"

definition CreateInvoice_basic :: formSchema where
  "CreateInvoice_basic = FormSchema_basic"

definition createInvoice_basic :: "env \<Rightarrow> formData \<Rightarrow> world \<Rightarrow> unit outcome \<times> world" where
  "createInvoice_basic e formData w =
     (case parse CreateInvoice_basic (rawFormData formData) of
        Raised x \<Rightarrow> (Raised x, w)
      | Returned d \<Rightarrow>
          (let amountInCents = js_mul (amount d) (Finite False 100);
               date = split_T_0 (toISOString (now e))
           in (case sql e (INSERT_INTO_invoices (customerId d) amountInCents (status d) date) w of
                 (Some error, w1) \<Rightarrow>
                   (Raised (Error ''Failed to create invoice''),
                    console_error ''Error inserting invoice:'' error w1)
               | (None, w1) \<Rightarrow>
                   (redirect ''/dashboard/invoices'', revalidatePath ''/dashboard/invoices'' w1))))"



definition deleteInvoice_basic :: "env \<Rightarrow> string \<Rightarrow> world \<Rightarrow> unit outcome \<times> world" where
  "deleteInvoice_basic e id' w =
     (case sql e (DELETE_FROM_invoices id') w of
        (Some error, w1) \<Rightarrow> (Raised error, w1)
      | (None, w1) \<Rightarrow> (Returned (), revalidatePath ''/dashboard/invoices'' w1))"

subsection \<open>Vocabulary of the properties and sample surroundings\<close>

text \<open>\<open>typeof v === "string"\<close> on a value read from a form.\<close>

definition isString :: "raw \<Rightarrow> bool" where
  "isString v = (case v of Some (EString s) \<Rightarrow> True | _ \<Rightarrow> False)"

text \<open>A clock reading, a store that accepts every statement and one that refuses all.\<close>

definition sample_now :: utcDate where
  "sample_now = \<lparr>year = 2025, month = 6, day = 19, hours = 7, minutes = 5, seconds = 9,
                  milliseconds = 42\<rparr>"

definition store_up :: "statement \<Rightarrow> string option" where
  "store_up q = None"

definition store_down :: "statement \<Rightarrow> string option" where
  "store_down q = Some ''connection refused''"

definition env_up :: env where
  "env_up = \<lparr>now = sample_now, store = store_up\<rparr>"

definition env_down :: env where
  "env_down = \<lparr>now = sample_now, store = store_down\<rparr>"

definition world0 :: world where
  "world0 = \<lparr>issued = [], revalidated = [], console = []\<rparr>"

definition state0 :: State where
  "state0 = \<lparr>errors = None, message = None\<rparr>"

text \<open>Sample forms.\<close>

definition form_paid10 :: formData where
  "form_paid10 = [(''customerId'', EString ''c1''), (''amount'', EString ''10''), (''status'', EString ''paid'')]"

definition form_19_99 :: formData where
  "form_19_99 = [(''customerId'', EString ''c1''), (''amount'', EString ''19.99''), (''status'', EString ''paid'')]"

definition form_empty_customer :: formData where
  "form_empty_customer = [(''customerId'', EString []), (''amount'', EString ''10''), (''status'', EString ''paid'')]"

definition form_overdue :: formData where
  "form_overdue = [(''customerId'', EString ''c1''), (''amount'', EString ''10''), (''status'', EString ''overdue'')]"

definition form_all_bad :: formData where
  "form_all_bad = [(''amount'', EString ''-1''), (''status'', EFile)]"

definition form_zero :: formData where
  "form_zero = [(''customerId'', EString ''c1''), (''amount'', EString ''0''), (''status'', EString ''paid'')]"

definition form_abc :: formData where
  "form_abc = [(''customerId'', EString ''c1''), (''amount'', EString ''abc''), (''status'', EString ''paid'')]"

definition form_no_amount :: formData where
  "form_no_amount = [(''customerId'', EString ''c1''), (''status'', EString ''pending'')]"

definition form_empty_amount :: formData where
  "form_empty_amount = [(''customerId'', EString ''c1''), (''amount'', EString []), (''status'', EString ''paid'')]"


section \<open>Facts about the numbers, the schemas and the date\<close>

lemma js_gt_zero_iff: "js_gt n js_zero \<longleftrightarrow> n \<noteq> NaN \<and> \<not> js_le n js_zero"
  by (cases n) (auto simp: js_zero_def signed_def)

lemma z_string_Inr_iff: "z_string p v = Inr s \<longleftrightarrow> v = Some (EString s)"
  by (auto simp: z_string_def split: option.splits entryValue.splits)

lemma z_enum_Inr_iff: "z_enum vs p v = Inr s \<longleftrightarrow> v = Some (EString s) \<and> s \<in> set vs"
  by (auto simp: z_enum_def split: option.splits entryValue.splits)

lemma z_coerce_number_Inr_iff: "z_coerce_number v = Inr n \<longleftrightarrow> n = Number v \<and> n \<noteq> NaN"
  by (auto simp: z_coerce_number_def Let_def)

lemma gt_Inr_iff: "gt b m r = Inr n \<longleftrightarrow> r = Inr n \<and> \<not> js_le n b"
  by (auto simp: gt_def split: sum.splits)

lemma safeParse_Inr_iff:
  "safeParse sch obj = Inr d \<longleftrightarrow>
     schema_customerId sch (raw_customerId obj) = Inr (customerId d) \<and>
     schema_amount sch (raw_amount obj) = Inr (amount d) \<and>
     schema_status sch (raw_status obj) = Inr (status d)"
  by (cases d) (auto simp: safeParse_def Let_def split: sum.splits)

lemma safeParse_FormSchema_Inr_iff:
  "safeParse FormSchema obj = Inr d \<longleftrightarrow>
     raw_customerId obj = Some (EString (customerId d)) \<and>
     amount d = Number (raw_amount obj) \<and> js_gt (amount d) js_zero \<and>
     raw_status obj = Some (EString (status d)) \<and> status d \<in> {''pending'', ''paid''}"
  unfolding safeParse_Inr_iff
  by (auto simp: FormSchema_def z_string_Inr_iff z_enum_Inr_iff z_coerce_number_Inr_iff gt_Inr_iff js_gt_zero_iff)

lemma safeParse_FormSchema_basic_Inr_iff:
  "safeParse FormSchema_basic obj = Inr d \<longleftrightarrow>
     raw_customerId obj = Some (EString (customerId d)) \<and>
     amount d = Number (raw_amount obj) \<and> amount d \<noteq> NaN \<and>
     raw_status obj = Some (EString (status d)) \<and> status d \<in> {''pending'', ''paid''}"
  unfolding safeParse_Inr_iff
  by (auto simp: FormSchema_basic_def z_string_Inr_iff z_enum_Inr_iff z_coerce_number_Inr_iff)

lemma customerId_parse:
  "schema_customerId FormSchema v =
     (case v of Some (EString s) \<Rightarrow> Inr s | _ \<Rightarrow> Inl [(invalid_type, ''Please select a customer.'')])"
  by (simp add: FormSchema_def z_string_def invalid_type_message_def split: option.splits entryValue.splits)

lemma amount_parse:
  "schema_amount FormSchema v =
     (if Number v = NaN then Inl [(invalid_type, ''Expected number, received nan'')]
      else if js_gt (Number v) js_zero then Inr (Number v)
      else Inl [(too_small, ''Please enter an amount greater than $0.'')])"
  by (simp add: FormSchema_def z_coerce_number_def gt_def invalid_type_message_def Let_def js_gt_zero_iff)

lemma status_parse:
  "schema_status FormSchema v =
     (case v of
        Some (EString s) \<Rightarrow>
          if s = ''pending'' \<or> s = ''paid'' then Inr s
          else Inl [(invalid_enum_value,
                     ''Invalid enum value. Expected '' @ joinValues [''pending'', ''paid'']
                       @ '', received '' @ quoted s)]
      | _ \<Rightarrow> Inl [(invalid_type, ''Please select an invoice status.'')])"
  by (simp add: FormSchema_def z_enum_def invalid_type_message_def split: option.splits entryValue.splits)

lemma fieldErrors_simps:
  "fieldErrors [] = Map.empty"
  "fieldErrors [ZodIssue c1 [k1] m1] = [k1 \<mapsto> [m1]]"
  "k1 \<noteq> k2 \<Longrightarrow> fieldErrors [ZodIssue c1 [k1] m1, ZodIssue c2 [k2] m2] = [k1 \<mapsto> [m1], k2 \<mapsto> [m2]]"
  "k1 \<noteq> k2 \<Longrightarrow> k1 \<noteq> k3 \<Longrightarrow> k2 \<noteq> k3 \<Longrightarrow>
     fieldErrors [ZodIssue c1 [k1] m1, ZodIssue c2 [k2] m2, ZodIssue c3 [k3] m3]
       = [k1 \<mapsto> [m1], k2 \<mapsto> [m2], k3 \<mapsto> [m3]]"
  by (simp_all add: fieldErrors_def)

lemma valid_payload_parses:
  assumes "get fd ''customerId'' = Some (EString c)"
    and "js_gt (Number (get fd ''amount'')) js_zero"
    and "get fd ''status'' = Some (EString s)"
    and "s = ''pending'' \<or> s = ''paid''"
  shows "safeParse FormSchema (rawFormData fd)
           = Inr \<lparr>customerId = c, amount = Number (get fd ''amount''), status = s\<rparr>"
  using assms by (auto simp: safeParse_FormSchema_Inr_iff rawFormData_def)

lemma digitChar_not_T: "d < 10 \<Longrightarrow> digitChar d \<noteq> CHR ''T''"
proof -
  assume "d < 10"
  then have "d \<in> {0, 1, 2, 3, 4, 5, 6, 7, 8, 9}" by auto
  then show ?thesis by (auto simp: digitChar_def)
qed

lemma padDigits_not_T: "c \<in> set (padDigits k n) \<Longrightarrow> c \<noteq> CHR ''T''"
proof (induction k arbitrary: n)
  case 0
  then show ?case by simp
next
  case (Suc k)
  have "digitChar (n mod 10) \<noteq> CHR ''T''" by (rule digitChar_not_T) simp
  with Suc show ?case by auto
qed

lemma takeWhile_not_T_padDigits:
  "takeWhile (\<lambda>c. c \<noteq> CHR ''T'') (padDigits k n @ rest) = padDigits k n @ takeWhile (\<lambda>c. c \<noteq> CHR ''T'') rest"
  by (rule takeWhile_append2) (simp add: padDigits_not_T)

lemma iso_date_prefix:
  assumes "0 \<le> year t" "year t \<le> 9999"
  shows "split_T_0 (toISOString t)
           = padDigits 4 (nat (year t)) @ ''-'' @ padDigits 2 (month t) @ ''-'' @ padDigits 2 (day t)"
  using assms
  by (simp add: split_T_0_def toISOString_def takeWhile_not_T_padDigits del: padDigits.simps)


lemma Number_absent_or_empty:
  "Number None = Finite False 0" "Number (Some (EString [])) = Finite False 0"
  by (simp_all add: Number_def js_zero_def stringToNumber_def trimString_def)

lemma round_double_zero: "round_double neg 0 = Finite neg 0"
  by (simp add: round_double_def)


section \<open>Properties of the actions\<close>

subsection \<open>Validation failures of the first module's \<open>createInvoice\<close>\<close>

text \<open>
  C1, as stated, fails: the specification has \<open>createInvoice\<close> report
  \<open>Please select a customer.\<close> for an empty \<open>customerId\<close> and
  \<open>Please select an invoice status.\<close> for every status outside the two literals, without
  a store write. The schema checks only that \<open>customerId\<close> is a string, so the empty
  string is accepted and the row is inserted; and \<open>invalid_type_error\<close> is the message of
  a wrongly typed status only, so a string such as \<open>overdue\<close> gets the library's
  \<open>Invalid enum value\<close> message.
\<close>

theorem createInvoice_field_errors_counterexample:
  "createInvoice env_up state0 form_empty_customer world0
     = (Raised (NEXT_REDIRECT ''/dashboard/invoices''),
        \<lparr>issued = [INSERT_INTO_invoices [] (Finite False 1000) ''paid'' ''2025-06-19''],
         revalidated = [''/dashboard/invoices''], console = []\<rparr>) \<and>
   createInvoice env_up state0 form_overdue world0
     = (Returned \<lparr>errors = Some [''status'' \<mapsto>
                     [''Invalid enum value. Expected '' @ quoted ''pending'' @ '' | ''
                        @ quoted ''paid'' @ '', received '' @ quoted ''overdue'']],
                  message = Some ''Missing Fields. Failed to Create Invoice.''\<rparr>, world0) \<and>
   ''Invalid enum value. Expected '' @ quoted ''pending'' @ '' | '' @ quoted ''paid''
      @ '', received '' @ quoted ''overdue'' \<noteq> ''Please select an invoice status.''"
proof -
  have p: "safeParse CreateInvoice (rawFormData form_empty_customer)
     = Inr \<lparr>customerId = [], amount = Finite False 10, status = ''paid''\<rparr>"
    by code_simp
  have m: "js_mul (Finite False 10) (Finite False 100) = Finite False 1000"
    by code_simp
  have t: "split_T_0 (toISOString (now env_up)) = ''2025-06-19''"
    by code_simp
  have s: "store env_up q = None" for q
    by (simp add: env_up_def store_up_def)
  have a: "createInvoice env_up state0 form_empty_customer world0
     = (Raised (NEXT_REDIRECT ''/dashboard/invoices''),
        \<lparr>issued = [INSERT_INTO_invoices [] (Finite False 1000) ''paid'' ''2025-06-19''],
         revalidated = [''/dashboard/invoices''], console = []\<rparr>)"
    unfolding createInvoice_def p
    by (simp add: m t s sql_def revalidatePath_def redirect_def world0_def Let_def
        del: js_mul.simps)
  have p': "safeParse CreateInvoice (rawFormData form_overdue)
     = Inl [ZodIssue invalid_enum_value [''status'']
              (''Invalid enum value. Expected '' @ quoted ''pending'' @ '' | ''
                 @ quoted ''paid'' @ '', received '' @ quoted ''overdue'')]"
    by code_simp
  have b: "createInvoice env_up state0 form_overdue world0
     = (Returned \<lparr>errors = Some [''status'' \<mapsto>
                     [''Invalid enum value. Expected '' @ quoted ''pending'' @ '' | ''
                        @ quoted ''paid'' @ '', received '' @ quoted ''overdue'']],
                  message = Some ''Missing Fields. Failed to Create Invoice.''\<rparr>, world0)"
    unfolding createInvoice_def p' by (simp add: fieldErrors_simps)
  have c: "''Invalid enum value. Expected '' @ quoted ''pending'' @ '' | '' @ quoted ''paid''
      @ '', received '' @ quoted ''overdue'' \<noteq> ''Please select an invoice status.''"
    by simp
  from a b c show ?thesis by blast
qed

text \<open>
  C1, amended: whenever \<open>customerId\<close> is not a string (absent or a file), or the amount
  coerces to a number other than \<open>NaN\<close> that is not greater than 0, or the status is not
  a string (absent or a file), or the status is a string other than \<open>pending\<close> and
  \<open>paid\<close>, \<open>createInvoice\<close> returns a state with the message
  \<open>Missing Fields. Failed to Create Invoice.\<close> and an \<open>errors\<close> mapping, and sends
  nothing to the store. The mapping holds for \<open>customerId\<close>, \<open>amount\<close> and a status
  that is not a string exactly the field's own message; for a status string outside the
  two literals it holds the library's \<open>Invalid enum value\<close> message instead.
\<close>

theorem createInvoice_field_errors:
  assumes "\<not> isString (get fd ''customerId'')
         \<or> (Number (get fd ''amount'') \<noteq> NaN \<and> \<not> js_gt (Number (get fd ''amount'')) js_zero)
         \<or> \<not> isString (get fd ''status'')
         \<or> (\<exists>s. get fd ''status'' = Some (EString s) \<and> s \<noteq> ''pending'' \<and> s \<noteq> ''paid'')"
  shows "\<exists>errs.
      createInvoice e prevState fd w
        = (Returned \<lparr>errors = Some errs,
                     message = Some ''Missing Fields. Failed to Create Invoice.''\<rparr>, w) \<and>
      (\<not> isString (get fd ''customerId'') \<longrightarrow>
         errs ''customerId'' = Some [''Please select a customer.'']) \<and>
      (Number (get fd ''amount'') \<noteq> NaN \<and> \<not> js_gt (Number (get fd ''amount'')) js_zero \<longrightarrow>
         errs ''amount'' = Some [''Please enter an amount greater than $0.'']) \<and>
      (\<not> isString (get fd ''status'') \<longrightarrow>
         errs ''status'' = Some [''Please select an invoice status.'']) \<and>
      (\<forall>s. get fd ''status'' = Some (EString s) \<and> s \<noteq> ''pending'' \<and> s \<noteq> ''paid'' \<longrightarrow>
         errs ''status'' = Some [''Invalid enum value. Expected ''
                                  @ joinValues [''pending'', ''paid''] @ '', received '' @ quoted s])"
  using assms
  unfolding createInvoice_def CreateInvoice_def safeParse_def rawFormData_def Let_def
    customerId_parse amount_parse status_parse
  by (auto simp: isString_def issuesAt_def fieldErrors_simps split: option.splits entryValue.splits)

theorem createInvoice_field_errors_witness:
  "\<not> isString (get form_all_bad ''customerId'') \<and>
   Number (get form_all_bad ''amount'') \<noteq> NaN \<and>
   \<not> js_gt (Number (get form_all_bad ''amount'')) js_zero \<and>
   \<not> isString (get form_all_bad ''status'') \<and>
   (\<exists>errs. createInvoice env_up state0 form_all_bad world0
        = (Returned \<lparr>errors = Some errs,
                     message = Some ''Missing Fields. Failed to Create Invoice.''\<rparr>, world0) \<and>
      errs ''customerId'' = Some [''Please select a customer.''] \<and>
      errs ''amount'' = Some [''Please enter an amount greater than $0.''] \<and>
      errs ''status'' = Some [''Please select an invoice status.'']) \<and>
   get form_overdue ''status'' = Some (EString ''overdue'') \<and>
   (\<exists>errs. createInvoice env_up state0 form_overdue world0
        = (Returned \<lparr>errors = Some errs,
                     message = Some ''Missing Fields. Failed to Create Invoice.''\<rparr>, world0) \<and>
      errs ''status'' = Some [''Invalid enum value. Expected ''
                               @ joinValues [''pending'', ''paid''] @ '', received ''
                               @ quoted ''overdue''])"
proof -
  have c: "\<not> isString (get form_all_bad ''customerId'')" by code_simp
  have a: "Number (get form_all_bad ''amount'') \<noteq> NaN \<and>
           \<not> js_gt (Number (get form_all_bad ''amount'')) js_zero" by code_simp
  have s: "\<not> isString (get form_all_bad ''status'')" by code_simp
  have s': "get form_overdue ''status'' = Some (EString ''overdue'')" by code_simp
  have ne: "''overdue'' \<noteq> ''pending'' \<and> ''overdue'' \<noteq> ''paid''" by simp
  from createInvoice_field_errors [of form_all_bad env_up state0 world0] c a s
  have 1: "\<exists>errs. createInvoice env_up state0 form_all_bad world0
        = (Returned \<lparr>errors = Some errs,
                     message = Some ''Missing Fields. Failed to Create Invoice.''\<rparr>, world0) \<and>
      errs ''customerId'' = Some [''Please select a customer.''] \<and>
      errs ''amount'' = Some [''Please enter an amount greater than $0.''] \<and>
      errs ''status'' = Some [''Please select an invoice status.'']"
    by blast
  from createInvoice_field_errors [of form_overdue env_up state0 world0] s' ne
  have 2: "\<exists>errs. createInvoice env_up state0 form_overdue world0
        = (Returned \<lparr>errors = Some errs,
                     message = Some ''Missing Fields. Failed to Create Invoice.''\<rparr>, world0) \<and>
      errs ''status'' = Some [''Invalid enum value. Expected ''
                               @ joinValues [''pending'', ''paid''] @ '', received ''
                               @ quoted ''overdue'']"
    by blast
  from c a s s' 1 2 show ?thesis by blast
qed

subsection \<open>The insert of the first module's \<open>createInvoice\<close>\<close>

text \<open>
  C2: for every valid create payload (a string \<open>customerId\<close>, an amount that coerces to
  a number greater than 0, a status among \<open>pending\<close> and \<open>paid\<close>), \<open>createInvoice\<close>
  sends exactly one statement to the store, the INSERT of the customer, the product of the
  amount and 100 as the multiplication gives it (nothing rounds it to a whole number), the
  status and the date; the date is the ISO string of the clock reading cut before its
  \<open>T\<close>, which for a year from 0 to 9999 is year, month and day as \<open>YYYY-MM-DD\<close>.
\<close>

theorem createInvoice_valid_insert:
  assumes "get fd ''customerId'' = Some (EString c)"
    and "js_gt (Number (get fd ''amount'')) js_zero"
    and "get fd ''status'' = Some (EString s)"
    and "s = ''pending'' \<or> s = ''paid''"
  shows "issued (snd (createInvoice e prevState fd w))
           = issued w @ [INSERT_INTO_invoices c
                           (js_mul (Number (get fd ''amount'')) (Finite False 100)) s
                           (split_T_0 (toISOString (now e)))] \<and>
         (0 \<le> year (now e) \<and> year (now e) \<le> 9999 \<longrightarrow>
            split_T_0 (toISOString (now e))
              = padDigits 4 (nat (year (now e))) @ ''-'' @ padDigits 2 (month (now e))
                  @ ''-'' @ padDigits 2 (day (now e)))"
proof
  have ok: "safeParse CreateInvoice (rawFormData fd)
           = Inr \<lparr>customerId = c, amount = Number (get fd ''amount''), status = s\<rparr>"
    using valid_payload_parses [OF assms] by (simp add: CreateInvoice_def)
  show "issued (snd (createInvoice e prevState fd w))
           = issued w @ [INSERT_INTO_invoices c
                           (js_mul (Number (get fd ''amount'')) (Finite False 100)) s
                           (split_T_0 (toISOString (now e)))]"
    by (simp add: createInvoice_def ok sql_def revalidatePath_def Let_def split: option.splits)
  show "0 \<le> year (now e) \<and> year (now e) \<le> 9999 \<longrightarrow>
            split_T_0 (toISOString (now e))
              = padDigits 4 (nat (year (now e))) @ ''-'' @ padDigits 2 (month (now e))
                  @ ''-'' @ padDigits 2 (day (now e))"
    using iso_date_prefix by blast
qed

text \<open>At the amount \<open>19.99\<close> the product sent is the double just below 1999.\<close>

theorem createInvoice_valid_insert_witness:
  "get form_19_99 ''customerId'' = Some (EString ''c1'') \<and>
   js_gt (Number (get form_19_99 ''amount'')) js_zero \<and>
   get form_19_99 ''status'' = Some (EString ''paid'') \<and>
   issued (snd (createInvoice env_up state0 form_19_99 world0))
     = [INSERT_INTO_invoices ''c1'' (Finite False (8791694975696895 / 4398046511104)) ''paid''
          ''2025-06-19'']"
proof -
  have c: "get form_19_99 ''customerId'' = Some (EString ''c1'')" by code_simp
  have a: "js_gt (Number (get form_19_99 ''amount'')) js_zero" by code_simp
  have s: "get form_19_99 ''status'' = Some (EString ''paid'')" by code_simp
  have y: "0 \<le> year (now env_up) \<and> year (now env_up) \<le> 9999" by code_simp
  have m: "js_mul (Number (get form_19_99 ''amount'')) (Finite False 100)
             = Finite False (8791694975696895 / 4398046511104)" by code_simp
  have d: "padDigits 4 (nat (year (now env_up))) @ ''-'' @ padDigits 2 (month (now env_up))
                  @ ''-'' @ padDigits 2 (day (now env_up)) = ''2025-06-19''" by code_simp
  have i: "issued world0 = []" by code_simp
  from createInvoice_valid_insert [OF c a s, of env_up state0 world0] y m d i c a s
  show ?thesis by simp
qed

subsection \<open>A store failure in the first module's \<open>createInvoice\<close>\<close>

text \<open>
  C3: when the payload is valid and the store refuses the INSERT, \<open>createInvoice\<close>
  returns the state whose only key is the message
  \<open>Database Error: Failed to Create Invoice.\<close>: it raises nothing, so it neither
  re-raises the failure nor redirects, and it revalidates no path.
\<close>

theorem createInvoice_store_failure:
  assumes "safeParse CreateInvoice (rawFormData fd) = Inr d"
    and "store e (INSERT_INTO_invoices (customerId d) (js_mul (amount d) (Finite False 100))
                    (status d) (split_T_0 (toISOString (now e)))) = Some err"
  shows "createInvoice e prevState fd w
           = (Returned \<lparr>errors = None,
                        message = Some ''Database Error: Failed to Create Invoice.''\<rparr>,
              w\<lparr>issued := issued w @
                   [INSERT_INTO_invoices (customerId d) (js_mul (amount d) (Finite False 100))
                      (status d) (split_T_0 (toISOString (now e)))]\<rparr>) \<and>
         revalidated (snd (createInvoice e prevState fd w)) = revalidated w"
  using assms by (simp add: createInvoice_def sql_def Let_def)

theorem createInvoice_store_failure_witness:
  "safeParse CreateInvoice (rawFormData form_paid10)
     = Inr \<lparr>customerId = ''c1'', amount = Finite False 10, status = ''paid''\<rparr> \<and>
   store env_down (INSERT_INTO_invoices ''c1'' (Finite False 1000) ''paid'' ''2025-06-19'')
     = Some ''connection refused'' \<and>
   createInvoice env_down state0 form_paid10 world0
     = (Returned \<lparr>errors = None, message = Some ''Database Error: Failed to Create Invoice.''\<rparr>,
        \<lparr>issued = [INSERT_INTO_invoices ''c1'' (Finite False 1000) ''paid'' ''2025-06-19''],
         revalidated = [], console = []\<rparr>)"
proof -
  let ?d = "\<lparr>customerId = ''c1'', amount = Finite False 10, status = ''paid''\<rparr>"
  have p: "safeParse CreateInvoice (rawFormData form_paid10) = Inr ?d" by code_simp
  have m: "js_mul (amount ?d) (Finite False 100) = Finite False 1000" by code_simp
  have t: "split_T_0 (toISOString (now env_down)) = ''2025-06-19''" by code_simp
  have f: "store env_down (INSERT_INTO_invoices ''c1'' (Finite False 1000) ''paid'' ''2025-06-19'')
             = Some ''connection refused''" by code_simp
  have f': "store env_down (INSERT_INTO_invoices (customerId ?d) (js_mul (amount ?d) (Finite False 100))
                    (status ?d) (split_T_0 (toISOString (now env_down)))) = Some ''connection refused''"
    using f m t by simp
  from createInvoice_store_failure [OF p f', of state0 world0] p f m t
  show ?thesis by (simp add: world0_def)
qed

subsection \<open>Validation failures of the first module's \<open>updateInvoice\<close>\<close>

text \<open>
  C4: on every payload that fails the validation, \<open>updateInvoice\<close> of the first module
  raises the \<open>ZodError\<close> with the issues and touches nothing, where \<open>createInvoice\<close> of
  the same module, on the same payload, returns the state with the field errors of those
  issues.
\<close>

theorem updateInvoice_raises_where_createInvoice_returns:
  assumes "safeParse UpdateInvoice (rawFormData fd) = Inl issues"
  shows "updateInvoice e id' fd w = (Raised (ZodError issues), w) \<and>
         createInvoice e prevState fd w
           = (Returned \<lparr>errors = Some (fieldErrors issues),
                        message = Some ''Missing Fields. Failed to Create Invoice.''\<rparr>, w)"
  using assms
  by (simp add: updateInvoice_def createInvoice_def parse_def UpdateInvoice_def CreateInvoice_def)

theorem updateInvoice_raises_where_createInvoice_returns_witness:
  "safeParse UpdateInvoice (rawFormData form_zero)
     = Inl [ZodIssue too_small [''amount''] ''Please enter an amount greater than $0.''] \<and>
   updateInvoice env_up ''7'' form_zero world0
     = (Raised (ZodError [ZodIssue too_small [''amount'']
                            ''Please enter an amount greater than $0.'']), world0) \<and>
   createInvoice env_up state0 form_zero world0
     = (Returned \<lparr>errors = Some [''amount'' \<mapsto> [''Please enter an amount greater than $0.'']],
                  message = Some ''Missing Fields. Failed to Create Invoice.''\<rparr>, world0)"
proof -
  have p: "safeParse UpdateInvoice (rawFormData form_zero)
     = Inl [ZodIssue too_small [''amount''] ''Please enter an amount greater than $0.'']"
    by code_simp
  from updateInvoice_raises_where_createInvoice_returns [OF p, of env_up "''7''" world0 state0] p
  show ?thesis by (simp add: fieldErrors_simps)
qed

subsection \<open>The update of the first module's \<open>updateInvoice\<close>\<close>

text \<open>
  C5: for every valid payload and identifier, \<open>updateInvoice\<close> of the first module sends
  exactly one statement, the UPDATE of the customer, the product of the amount and 100 and
  the status for the row of that identifier. When the store accepts it, the listing path
  is revalidated and the action leaves by the redirect to it. When the store refuses it,
  the store's error is logged under \<open>Error updating invoice:\<close> and the action raises the
  error \<open>Failed to update invoice\<close>; it returns no value.
\<close>

theorem updateInvoice_valid:
  assumes "get fd ''customerId'' = Some (EString c)"
    and "js_gt (Number (get fd ''amount'')) js_zero"
    and "get fd ''status'' = Some (EString s)"
    and "s = ''pending'' \<or> s = ''paid''"
  shows "(store e (UPDATE_invoices c (js_mul (Number (get fd ''amount'')) (Finite False 100)) s id')
            = None \<longrightarrow>
          updateInvoice e id' fd w
            = (Raised (NEXT_REDIRECT ''/dashboard/invoices''),
               w\<lparr>issued := issued w @
                    [UPDATE_invoices c (js_mul (Number (get fd ''amount'')) (Finite False 100)) s id'],
                 revalidated := revalidated w @ [''/dashboard/invoices'']\<rparr>)) \<and>
         (\<forall>err. store e (UPDATE_invoices c (js_mul (Number (get fd ''amount'')) (Finite False 100)) s id')
            = Some err \<longrightarrow>
          updateInvoice e id' fd w
            = (Raised (Error ''Failed to update invoice''),
               w\<lparr>issued := issued w @
                    [UPDATE_invoices c (js_mul (Number (get fd ''amount'')) (Finite False 100)) s id'],
                 console := console w @ [(''Error updating invoice:'', StoreError err)]\<rparr>))"
proof -
  have ok: "safeParse UpdateInvoice (rawFormData fd)
           = Inr \<lparr>customerId = c, amount = Number (get fd ''amount''), status = s\<rparr>"
    using valid_payload_parses [OF assms] by (simp add: UpdateInvoice_def)
  show ?thesis
    by (simp add: updateInvoice_def parse_def ok sql_def revalidatePath_def redirect_def
        console_error_def Let_def)
qed

theorem updateInvoice_valid_witness:
  "get form_paid10 ''customerId'' = Some (EString ''c1'') \<and>
   js_gt (Number (get form_paid10 ''amount'')) js_zero \<and>
   get form_paid10 ''status'' = Some (EString ''paid'') \<and>
   store env_up (UPDATE_invoices ''c1'' (Finite False 1000) ''paid'' ''7'') = None \<and>
   updateInvoice env_up ''7'' form_paid10 world0
     = (Raised (NEXT_REDIRECT ''/dashboard/invoices''),
        \<lparr>issued = [UPDATE_invoices ''c1'' (Finite False 1000) ''paid'' ''7''],
         revalidated = [''/dashboard/invoices''], console = []\<rparr>) \<and>
   store env_down (UPDATE_invoices ''c1'' (Finite False 1000) ''paid'' ''7'')
     = Some ''connection refused'' \<and>
   updateInvoice env_down ''7'' form_paid10 world0
     = (Raised (Error ''Failed to update invoice''),
        \<lparr>issued = [UPDATE_invoices ''c1'' (Finite False 1000) ''paid'' ''7''],
         revalidated = [],
         console = [(''Error updating invoice:'', StoreError ''connection refused'')]\<rparr>)"
proof -
  have c: "get form_paid10 ''customerId'' = Some (EString ''c1'')" by code_simp
  have a: "js_gt (Number (get form_paid10 ''amount'')) js_zero" by code_simp
  have s: "get form_paid10 ''status'' = Some (EString ''paid'')" by code_simp
  have m: "js_mul (Number (get form_paid10 ''amount'')) (Finite False 100) = Finite False 1000"
    by code_simp
  have up: "store env_up (UPDATE_invoices ''c1'' (Finite False 1000) ''paid'' ''7'') = None"
    by code_simp
  have down: "store env_down (UPDATE_invoices ''c1'' (Finite False 1000) ''paid'' ''7'')
     = Some ''connection refused''" by code_simp
  from updateInvoice_valid [OF c a s, of env_up "''7''" world0]
       updateInvoice_valid [OF c a s, of env_down "''7''" world0] c a s m up down
  show ?thesis by (simp add: world0_def)
qed

subsection \<open>What the first module's validation accepts\<close>

text \<open>
  C6: a payload that the create or the update schema of the first module accepts has an
  amount that is the coerced input and greater than 0, and a status that is the input and
  one of \<open>pending\<close> and \<open>paid\<close>; and a payload whose amount does not coerce to a number
  greater than 0, or whose status is neither literal, is rejected by both.
\<close>

theorem accepted_amount_and_status:
  "(safeParse CreateInvoice obj = Inr d \<or> safeParse UpdateInvoice obj = Inr d \<longrightarrow>
      amount d = Number (raw_amount obj) \<and> js_gt (amount d) js_zero \<and>
      raw_status obj = Some (EString (status d)) \<and>
      (status d = ''pending'' \<or> status d = ''paid'')) \<and>
   (\<not> js_gt (Number (raw_amount obj)) js_zero \<or>
    (raw_status obj \<noteq> Some (EString ''pending'') \<and> raw_status obj \<noteq> Some (EString ''paid'')) \<longrightarrow>
      (\<exists>issues. safeParse CreateInvoice obj = Inl issues \<and>
                safeParse UpdateInvoice obj = Inl issues))"
proof (intro conjI impI)
  assume "safeParse CreateInvoice obj = Inr d \<or> safeParse UpdateInvoice obj = Inr d"
  then have ok: "safeParse FormSchema obj = Inr d"
    by (simp add: CreateInvoice_def UpdateInvoice_def)
  then show "amount d = Number (raw_amount obj)" "js_gt (amount d) js_zero"
    "raw_status obj = Some (EString (status d))" "status d = ''pending'' \<or> status d = ''paid''"
    by (auto simp: safeParse_FormSchema_Inr_iff)
next
  assume bad: "\<not> js_gt (Number (raw_amount obj)) js_zero \<or>
    (raw_status obj \<noteq> Some (EString ''pending'') \<and> raw_status obj \<noteq> Some (EString ''paid''))"
  have "\<not> (\<exists>d. safeParse FormSchema obj = Inr d)"
    using bad by (auto simp: safeParse_FormSchema_Inr_iff)
  then obtain issues where "safeParse FormSchema obj = Inl issues"
    by (cases "safeParse FormSchema obj") auto
  then show "\<exists>issues. safeParse CreateInvoice obj = Inl issues \<and>
                safeParse UpdateInvoice obj = Inl issues"
    by (simp add: CreateInvoice_def UpdateInvoice_def)
qed

theorem accepted_amount_and_status_witness:
  "safeParse CreateInvoice (rawFormData form_paid10)
     = Inr \<lparr>customerId = ''c1'', amount = Finite False 10, status = ''paid''\<rparr> \<and>
   js_gt (Finite False 10) js_zero \<and>
   \<not> js_gt (Number (raw_amount (rawFormData form_zero))) js_zero \<and>
   (\<exists>issues. safeParse CreateInvoice (rawFormData form_zero) = Inl issues) \<and>
   raw_status (rawFormData form_overdue) \<noteq> Some (EString ''pending'') \<and>
   raw_status (rawFormData form_overdue) \<noteq> Some (EString ''paid'') \<and>
   (\<exists>issues. safeParse UpdateInvoice (rawFormData form_overdue) = Inl issues)"
proof -
  have ok: "safeParse CreateInvoice (rawFormData form_paid10)
     = Inr \<lparr>customerId = ''c1'', amount = Finite False 10, status = ''paid''\<rparr>"
    by code_simp
  have bad: "\<not> js_gt (Number (raw_amount (rawFormData form_zero))) js_zero"
    by code_simp
  have bad': "raw_status (rawFormData form_overdue) \<noteq> Some (EString ''pending'') \<and>
              raw_status (rawFormData form_overdue) \<noteq> Some (EString ''paid'')"
    by code_simp
  from accepted_amount_and_status [of "rawFormData form_paid10"
      "\<lparr>customerId = ''c1'', amount = Finite False 10, status = ''paid''\<rparr>"] ok
  have 1: "js_gt (Finite False 10) js_zero" by simp
  from accepted_amount_and_status [of "rawFormData form_zero"] bad
  have 2: "\<exists>issues. safeParse CreateInvoice (rawFormData form_zero) = Inl issues" by blast
  from accepted_amount_and_status [of "rawFormData form_overdue"] bad'
  have 3: "\<exists>issues. safeParse UpdateInvoice (rawFormData form_overdue) = Inl issues" by blast
  from ok bad bad' 1 2 3 show ?thesis by blast
qed

subsection \<open>\<open>deleteInvoice\<close> of both modules\<close>

text \<open>
  C7: for every identifier, \<open>deleteInvoice\<close> of either module sends exactly one
  statement, the DELETE of the row of that identifier. When the store accepts it, the
  listing path is revalidated and the action returns: there is no redirect. When the store
  refuses it, the action raises the store's own error and does nothing else.
\<close>

theorem deleteInvoice_one_DELETE:
  "(store e (DELETE_FROM_invoices id') = None \<longrightarrow>
      deleteInvoice e id' w
        = (Returned (), w\<lparr>issued := issued w @ [DELETE_FROM_invoices id'],
                          revalidated := revalidated w @ [''/dashboard/invoices'']\<rparr>) \<and>
      deleteInvoice_basic e id' w = deleteInvoice e id' w) \<and>
   (\<forall>err. store e (DELETE_FROM_invoices id') = Some err \<longrightarrow>
      deleteInvoice e id' w
        = (Raised (StoreError err), w\<lparr>issued := issued w @ [DELETE_FROM_invoices id']\<rparr>) \<and>
      deleteInvoice_basic e id' w = deleteInvoice e id' w)"
  by (simp add: deleteInvoice_def deleteInvoice_basic_def sql_def revalidatePath_def)

theorem deleteInvoice_one_DELETE_witness:
  "store env_up (DELETE_FROM_invoices ''7'') = None \<and>
   deleteInvoice env_up ''7'' world0
     = (Returned (), \<lparr>issued = [DELETE_FROM_invoices ''7''],
                      revalidated = [''/dashboard/invoices''], console = []\<rparr>) \<and>
   store env_down (DELETE_FROM_invoices ''7'') = Some ''connection refused'' \<and>
   deleteInvoice_basic env_down ''7'' world0
     = (Raised (StoreError ''connection refused''),
        \<lparr>issued = [DELETE_FROM_invoices ''7''], revalidated = [], console = []\<rparr>)"
proof -
  have up: "store env_up (DELETE_FROM_invoices ''7'') = None" by code_simp
  have down: "store env_down (DELETE_FROM_invoices ''7'') = Some ''connection refused''"
    by code_simp
  from deleteInvoice_one_DELETE [of env_up "''7''" world0]
       deleteInvoice_one_DELETE [of env_down "''7''" world0] up down
  show ?thesis by (simp add: world0_def)
qed

subsection \<open>\<open>updateInvoice\<close> of the second module against the first\<close>




subsection \<open>The amount in the second module's \<open>createInvoice\<close>\<close>

text \<open>
  C9: on every payload whose amount does not coerce to a number (the coercion gives
  \<open>NaN\<close>), \<open>createInvoice\<close> of the second module raises the validation error, with the
  issue of the amount among its issues, instead of returning a value, and sends nothing to
  the store.
\<close>

theorem createInvoice_basic_not_a_number:
  assumes "Number (get fd ''amount'') = NaN"
  shows "\<exists>issues. createInvoice_basic e fd w = (Raised (ZodError issues), w) \<and>
           ZodIssue invalid_type [''amount''] ''Expected number, received nan'' \<in> set issues"
  using assms
  unfolding createInvoice_basic_def parse_def CreateInvoice_basic_def safeParse_def
    rawFormData_def Let_def
  by (auto simp: FormSchema_basic_def z_coerce_number_def invalid_type_message_def issuesAt_def
      split: sum.splits)

theorem createInvoice_basic_not_a_number_witness:
  "Number (get form_abc ''amount'') = NaN \<and>
   createInvoice_basic env_up form_abc world0
     = (Raised (ZodError [ZodIssue invalid_type [''amount''] ''Expected number, received nan'']),
        world0)"
proof -
  have n: "Number (get form_abc ''amount'') = NaN" by code_simp
  have r: "createInvoice_basic env_up form_abc world0
     = (Raised (ZodError [ZodIssue invalid_type [''amount''] ''Expected number, received nan'']),
        world0)" by code_simp
  from createInvoice_basic_not_a_number [OF n, of env_up world0] n r
  show ?thesis by simp
qed

text \<open>
  C10: in the second module an amount that is absent or the empty string coerces to 0 and
  passes the validation: with a string \<open>customerId\<close> and a status among the two literals,
  \<open>createInvoice\<close> sends the INSERT with the amount 0, and when the store accepts it the
  action revalidates and redirects as on any success.
\<close>

theorem createInvoice_basic_amount_absent_or_empty:
  assumes "get fd ''amount'' = None \<or> get fd ''amount'' = Some (EString [])"
    and "get fd ''customerId'' = Some (EString c)"
    and "get fd ''status'' = Some (EString s)"
    and "s = ''pending'' \<or> s = ''paid''"
  shows "Number (get fd ''amount'') = Finite False 0 \<and>
         issued (snd (createInvoice_basic e fd w))
           = issued w @ [INSERT_INTO_invoices c (Finite False 0) s
                           (split_T_0 (toISOString (now e)))] \<and>
         (store e (INSERT_INTO_invoices c (Finite False 0) s (split_T_0 (toISOString (now e))))
            = None \<longrightarrow>
          createInvoice_basic e fd w
            = (Raised (NEXT_REDIRECT ''/dashboard/invoices''),
               w\<lparr>issued := issued w @ [INSERT_INTO_invoices c (Finite False 0) s
                                         (split_T_0 (toISOString (now e)))],
                 revalidated := revalidated w @ [''/dashboard/invoices'']\<rparr>))"
proof -
  have n: "Number (get fd ''amount'') = Finite False 0"
    using assms(1) by (auto simp: Number_absent_or_empty)
  have ok: "safeParse CreateInvoice_basic (rawFormData fd)
           = Inr \<lparr>customerId = c, amount = Finite False 0, status = s\<rparr>"
    using assms n
    by (auto simp: CreateInvoice_basic_def safeParse_FormSchema_basic_Inr_iff rawFormData_def)
  show ?thesis
    by (simp add: n createInvoice_basic_def parse_def ok sql_def revalidatePath_def redirect_def
        console_error_def Let_def round_double_zero split: option.splits)
qed

theorem createInvoice_basic_amount_absent_or_empty_witness:
  "get form_no_amount ''amount'' = None \<and>
   get form_no_amount ''customerId'' = Some (EString ''c1'') \<and>
   get form_no_amount ''status'' = Some (EString ''pending'') \<and>
   store env_up (INSERT_INTO_invoices ''c1'' (Finite False 0) ''pending'' ''2025-06-19'') = None \<and>
   createInvoice_basic env_up form_no_amount world0
     = (Raised (NEXT_REDIRECT ''/dashboard/invoices''),
        \<lparr>issued = [INSERT_INTO_invoices ''c1'' (Finite False 0) ''pending'' ''2025-06-19''],
         revalidated = [''/dashboard/invoices''], console = []\<rparr>) \<and>
   get form_empty_amount ''amount'' = Some (EString []) \<and>
   issued (snd (createInvoice_basic env_down form_empty_amount world0))
     = [INSERT_INTO_invoices ''c1'' (Finite False 0) ''paid'' ''2025-06-19'']"
proof -
  have a: "get form_no_amount ''amount'' = None" by code_simp
  have c: "get form_no_amount ''customerId'' = Some (EString ''c1'')" by code_simp
  have s: "get form_no_amount ''status'' = Some (EString ''pending'')" by code_simp
  have a': "get form_empty_amount ''amount'' = Some (EString [])" by code_simp
  have c': "get form_empty_amount ''customerId'' = Some (EString ''c1'')" by code_simp
  have s': "get form_empty_amount ''status'' = Some (EString ''paid'')" by code_simp
  have t: "split_T_0 (toISOString (now env_up)) = ''2025-06-19''"
    "split_T_0 (toISOString (now env_down)) = ''2025-06-19''" by code_simp+
  have up: "store env_up (INSERT_INTO_invoices ''c1'' (Finite False 0) ''pending'' ''2025-06-19'')
              = None" by code_simp
  from createInvoice_basic_amount_absent_or_empty [of form_no_amount "''c1''" "''pending''" env_up world0]
       createInvoice_basic_amount_absent_or_empty [of form_empty_amount "''c1''" "''paid''" env_down world0]
       a c s a' c' s' t up
  show ?thesis by (simp add: world0_def)
qed

end
